theory Spec2Isabelle
  imports Main "HOL-Library.Sublist"
begin

section \<open>Python values and the built-ins the generator calls\<close>

text \<open>
  The invoice generator (\<^verbatim>\<open>src/invoice_generator.py\<close>, class \<^verbatim>\<open>InvoiceGenerator\<close>)
  works on rows read from CSV and JSON files: dictionaries from field names to values
  of any JSON or CSV type. A Python \<^verbatim>\<open>str\<close> is modelled by its UTF-8 bytes, a
  dictionary by an association list read with \<open>map_of\<close>. The type \<open>'f\<close> stands for
  Python's \<^verbatim>\<open>float\<close>.
\<close>

datatype pyerr = ValueError | TypeError | OverflowError | AttributeError | KeyError

datatype 'f pyval =
    PNone
  | PBool bool
  | PInt int
  | PFloat 'f
  | PStr string
  | PList "'f pyval list"
  | PDict "(string \<times> 'f pyval) list"

type_synonym 'f pydict = "(string \<times> 'f pyval) list"

text \<open>
  The interpreter's own operations on floats and its conversions between strings and
  numbers are not code of the repository. They are taken as parameters, so that every
  theorem below holds whatever they compute:
  \<^item> \<open>float_of_int\<close> is \<^verbatim>\<open>float(i)\<close> on an int (\<open>None\<close>: OverflowError);
  \<^item> \<open>float_of_str\<close> is \<^verbatim>\<open>float(s)\<close> and \<open>int_of_str\<close> is \<^verbatim>\<open>int(s)\<close> on a string
    (\<open>None\<close>: ValueError);
  \<^item> \<open>int_of_float\<close> is \<^verbatim>\<open>int(x)\<close> on a float (it raises on nan and on infinities);
  \<^item> \<open>float_mul\<close> is \<^verbatim>\<open>*\<close> and \<open>float_eq\<close> is \<^verbatim>\<open>==\<close> on floats (the two zeros of
    IEEE 754 are different floats that \<^verbatim>\<open>==\<close> holds equal);
  \<^item> \<open>float_sum\<close> is what \<^verbatim>\<open>sum\<close> returns for a list of floats that is not empty (their
    sum from the left, which newer interpreters compensate for rounding);
  \<^item> \<open>repr_other\<close> is \<^verbatim>\<open>str\<close> on a float, a list or a dictionary;
  \<^item> \<open>format_2f\<close> is the format specification \<^verbatim>\<open>,.2f\<close> on a float.
\<close>

record 'f builtins =
  float_of_int :: "int \<Rightarrow> 'f option"
  float_of_str :: "string \<Rightarrow> 'f option"
  int_of_str :: "string \<Rightarrow> int option"
  int_of_float :: "'f \<Rightarrow> pyerr + int"
  float_mul :: "'f \<Rightarrow> 'f \<Rightarrow> 'f"
  float_eq :: "'f \<Rightarrow> 'f \<Rightarrow> bool"
  float_sum :: "'f list \<Rightarrow> 'f"
  repr_other :: "'f pyval \<Rightarrow> string"
  format_2f :: "'f \<Rightarrow> string"

definition digit_char :: "nat \<Rightarrow> char" where
  "digit_char d = ''0123456789'' ! d"

fun str_nat :: "nat \<Rightarrow> string" where
  "str_nat n = (if n < 10 then [digit_char n] else str_nat (n div 10) @ [digit_char (n mod 10)])"

declare str_nat.simps [simp del]

definition str_int :: "int \<Rightarrow> string" where
  "str_int i = (if i < 0 then CHR ''-'' # str_nat (nat (- i)) else str_nat (nat i))"

text \<open>\<^verbatim>\<open>str(v)\<close>.\<close>

fun py_str :: "'f builtins \<Rightarrow> 'f pyval \<Rightarrow> string" where
  "py_str rt PNone = ''None''"
| "py_str rt (PBool b) = (if b then ''True'' else ''False'')"
| "py_str rt (PInt i) = str_int i"
| "py_str rt (PStr s) = s"
| "py_str rt v = repr_other rt v"

text \<open>\<^verbatim>\<open>d.get(k)\<close> and \<^verbatim>\<open>d.get(k, default)\<close> on a dictionary.\<close>

definition dict_get :: "'f pydict \<Rightarrow> string \<Rightarrow> 'f pyval" where
  "dict_get d k = (case map_of d k of None \<Rightarrow> PNone | Some v \<Rightarrow> v)"

definition dict_get_default :: "'f pydict \<Rightarrow> string \<Rightarrow> 'f pyval \<Rightarrow> 'f pyval" where
  "dict_get_default d k dflt = (case map_of d k of None \<Rightarrow> dflt | Some v \<Rightarrow> v)"

section \<open>Reference data: customers and products\<close>

text \<open>
  \<^verbatim>\<open>self.data_dir\<close>: what \<^verbatim>\<open>load_csv_data\<close> and \<^verbatim>\<open>load_json_data\<close> return for each
  of the four reference files, \<open>None\<close> for a file that does not exist.
\<close>

record 'f data_dir =
  customer_csv :: "'f pydict list option"
  customer_json :: "'f pydict list option"
  product_csv :: "'f pydict list option"
  product_json :: "'f pydict list option"

text \<open>The test of both lookup loops: \<^verbatim>\<open>str(row.get(key)) == str(wanted)\<close>.\<close>

definition id_matches :: "'f builtins \<Rightarrow> string \<Rightarrow> 'f pyval \<Rightarrow> 'f pydict \<Rightarrow> bool" where
  "id_matches rt key wanted row = (py_str rt (dict_get row key) = py_str rt wanted)"

definition load_customer_data :: "'f builtins \<Rightarrow> 'f data_dir \<Rightarrow> 'f pyval \<Rightarrow> 'f pydict option" where
  "load_customer_data rt dd customer_id =
     (case (case customer_csv dd of
              None \<Rightarrow> None
            | Some customers \<Rightarrow> find (id_matches rt ''customer_id'' customer_id) customers) of
        Some customer \<Rightarrow> Some customer
      | None \<Rightarrow>
          (case customer_json dd of
             None \<Rightarrow> None
           | Some customers \<Rightarrow> find (id_matches rt ''customer_id'' customer_id) customers))"

definition load_product_data :: "'f builtins \<Rightarrow> 'f data_dir \<Rightarrow> 'f pyval \<Rightarrow> 'f pydict option" where
  "load_product_data rt dd product_id =
     (case (case product_csv dd of
              None \<Rightarrow> None
            | Some products \<Rightarrow> find (id_matches rt ''product_id'' product_id) products) of
        Some product \<Rightarrow> Some product
      | None \<Rightarrow>
          (case product_json dd of
             None \<Rightarrow> None
           | Some products \<Rightarrow> find (id_matches rt ''product_id'' product_id) products))"

text \<open>The rows of a reference file, none for a file that does not exist.\<close>

definition rows_of :: "'a list option \<Rightarrow> 'a list" where
  "rows_of src = (case src of None \<Rightarrow> [] | Some rows \<Rightarrow> rows)"

section \<open>Resolution order\<close>

lemma find_append_first: "find P (xs @ ys) = (case find P xs of None \<Rightarrow> find P ys | Some x \<Rightarrow> Some x)"
  by (induction xs) auto

lemma load_customer_data_find:
  "load_customer_data rt dd cid =
     find (id_matches rt ''customer_id'' cid) (rows_of (customer_csv dd) @ rows_of (customer_json dd))"
  by (simp add: load_customer_data_def rows_of_def find_append_first split: option.splits)

lemma load_product_data_find:
  "load_product_data rt dd pid =
     find (id_matches rt ''product_id'' pid) (rows_of (product_csv dd) @ rows_of (product_json dd))"
  by (simp add: load_product_data_def rows_of_def find_append_first split: option.splits)


section \<open>Assembling one invoice\<close>

text \<open>
  \<^verbatim>\<open>file_path.suffix.lower() == '.csv'\<close> decides every branch on the data file;
  \<^verbatim>\<open>load_data_file\<close> admits the two suffixes only.
\<close>

datatype suffix = Csv | Json

text \<open>
  The loop of the CSV branch of \<^verbatim>\<open>get_invoice_data\<close>, with its three variables
  \<^verbatim>\<open>invoice_items\<close>, \<^verbatim>\<open>invoice_date\<close> and \<^verbatim>\<open>customer_id\<close>.
\<close>

fun csv_rows_loop ::
  "'f builtins \<Rightarrow> 'f pyval \<Rightarrow> 'f pydict list \<Rightarrow> 'f pydict list \<times> 'f pyval \<times> 'f pyval
     \<Rightarrow> 'f pydict list \<times> 'f pyval \<times> 'f pyval" where
  "csv_rows_loop rt invoice_id [] st = st"
| "csv_rows_loop rt invoice_id (row # rows) (invoice_items, invoice_date, customer_id) =
     (if py_str rt (dict_get row ''invoice_id'') = py_str rt invoice_id
      then csv_rows_loop rt invoice_id rows
             (invoice_items @ [row],
              if invoice_date = PNone then dict_get row ''date'' else invoice_date,
              if customer_id = PNone then dict_get row ''customer_id'' else customer_id)
      else csv_rows_loop rt invoice_id rows (invoice_items, invoice_date, customer_id))"

definition get_invoice_data ::
  "'f builtins \<Rightarrow> 'f pydict list \<Rightarrow> 'f pyval \<Rightarrow> suffix \<Rightarrow> pyerr + 'f pydict" where
  "get_invoice_data rt data invoice_id sfx =
     (case sfx of
        Csv \<Rightarrow>
          (case csv_rows_loop rt invoice_id data ([], PNone, PNone) of
             (invoice_items, invoice_date, customer_id) \<Rightarrow>
               Inr [(''invoice_id'', invoice_id),
                    (''customer_id'', customer_id),
                    (''date'', invoice_date),
                    (''items'', PList (map PDict invoice_items))])
      | Json \<Rightarrow>
          (case find (id_matches rt ''invoice_id'' invoice_id) data of
             Some item \<Rightarrow> Inr item
           | None \<Rightarrow> Inl ValueError))"

section \<open>Enriching the line items\<close>

text \<open>\<^verbatim>\<open>int(v)\<close> and \<^verbatim>\<open>float(v)\<close>.\<close>

fun py_int :: "'f builtins \<Rightarrow> 'f pyval \<Rightarrow> pyerr + int" where
  "py_int rt PNone = Inl TypeError"
| "py_int rt (PBool b) = Inr (if b then 1 else 0)"
| "py_int rt (PInt i) = Inr i"
| "py_int rt (PFloat x) = int_of_float rt x"
| "py_int rt (PStr s) = (case int_of_str rt s of None \<Rightarrow> Inl ValueError | Some i \<Rightarrow> Inr i)"
| "py_int rt (PList xs) = Inl TypeError"
| "py_int rt (PDict d) = Inl TypeError"

definition float_int :: "'f builtins \<Rightarrow> int \<Rightarrow> pyerr + 'f" where
  "float_int rt i = (case float_of_int rt i of None \<Rightarrow> Inl OverflowError | Some x \<Rightarrow> Inr x)"

fun py_float :: "'f builtins \<Rightarrow> 'f pyval \<Rightarrow> pyerr + 'f" where
  "py_float rt PNone = Inl TypeError"
| "py_float rt (PBool b) = float_int rt (if b then 1 else 0)"
| "py_float rt (PInt i) = float_int rt i"
| "py_float rt (PFloat x) = Inr x"
| "py_float rt (PStr s) = (case float_of_str rt s of None \<Rightarrow> Inl ValueError | Some x \<Rightarrow> Inr x)"
| "py_float rt (PList xs) = Inl TypeError"
| "py_float rt (PDict d) = Inl TypeError"

text \<open>\<^verbatim>\<open>price * quantity\<close>, a float times an int: the int is converted first.\<close>

definition float_times_int :: "'f builtins \<Rightarrow> 'f \<Rightarrow> int \<Rightarrow> pyerr + 'f" where
  "float_times_int rt x i =
     (case float_int rt i of Inl e \<Rightarrow> Inl e | Inr y \<Rightarrow> Inr (float_mul rt x y))"

text \<open>\<^verbatim>\<open>item.get(k, default)\<close> on any value: only a dictionary has the method.\<close>

fun py_get :: "'f pyval \<Rightarrow> string \<Rightarrow> 'f pyval \<Rightarrow> pyerr + 'f pyval" where
  "py_get (PDict d) k dflt = Inr (dict_get_default d k dflt)"
| "py_get v k dflt = Inl AttributeError"

text \<open>
  \<^verbatim>\<open>for item in v\<close>: the elements of a list, the characters of a string, the keys
  of a dictionary; nothing else is iterable.
\<close>

fun py_iter :: "'f pyval \<Rightarrow> pyerr + 'f pyval list" where
  "py_iter (PList xs) = Inr xs"
| "py_iter (PStr s) = Inr (map (\<lambda>c. PStr [c]) s)"
| "py_iter (PDict d) = Inr (map (\<lambda>kv. PStr (fst kv)) d)"
| "py_iter v = Inl TypeError"

text \<open>An entry of the list \<^verbatim>\<open>prepare_invoice_items\<close> returns.\<close>

record 'f line_item =
  item_product_id :: "'f pyval"
  item_name :: "'f pyval"
  item_quantity :: int
  item_price :: 'f
  item_total :: 'f

text \<open>The default name of a product, \<^verbatim>\<open>'Neizvestnyj tovar'\<close> in Cyrillic.\<close>

definition unknown_product :: string where
  "unknown_product =
     [CHR 0xD0, CHR 0x9D, CHR 0xD0, CHR 0xB5, CHR 0xD0, CHR 0xB8, CHR 0xD0, CHR 0xB7, CHR 0xD0, CHR 0xB2,
      CHR 0xD0, CHR 0xB5, CHR 0xD1, CHR 0x81, CHR 0xD1, CHR 0x82, CHR 0xD0, CHR 0xBD, CHR 0xD1, CHR 0x8B,
      CHR 0xD0, CHR 0xB9] @ '' '' @
     [CHR 0xD1, CHR 0x82, CHR 0xD0, CHR 0xBE, CHR 0xD0, CHR 0xB2, CHR 0xD0, CHR 0xB0, CHR 0xD1, CHR 0x80]"

text \<open>
  The body of the loop over the raw items, the same in both branches of
  \<^verbatim>\<open>prepare_invoice_items\<close>: the entries it appends, none or one. The quantity is
  converted before the product is looked up; \<^verbatim>\<open>if product:\<close> is false for \<open>None\<close>
  and for an empty dictionary.
\<close>

definition enrich_item :: "'f builtins \<Rightarrow> 'f data_dir \<Rightarrow> 'f pyval \<Rightarrow> pyerr + 'f line_item list" where
  "enrich_item rt dd item =
     (case py_get item ''product_id'' PNone of
        Inl e \<Rightarrow> Inl e
      | Inr product_id \<Rightarrow>
     (case py_get item ''quantity'' (PInt 1) of
        Inl e \<Rightarrow> Inl e
      | Inr q \<Rightarrow>
     (case py_int rt q of
        Inl e \<Rightarrow> Inl e
      | Inr quantity \<Rightarrow>
     (case load_product_data rt dd product_id of
        None \<Rightarrow> Inr []
      | Some product \<Rightarrow>
          if product = [] then Inr []
          else
     (case py_float rt (dict_get_default product ''price'' (PInt 0)) of
        Inl e \<Rightarrow> Inl e
      | Inr price \<Rightarrow>
     (case float_times_int rt price quantity of
        Inl e \<Rightarrow> Inl e
      | Inr line_total \<Rightarrow>
          Inr [\<lparr>item_product_id = product_id,
                item_name = dict_get_default product ''name'' (PStr unknown_product),
                item_quantity = quantity,
                item_price = price,
                item_total = line_total\<rparr>]))))))"

fun enrich_loop ::
  "'f builtins \<Rightarrow> 'f data_dir \<Rightarrow> 'f pyval list \<Rightarrow> 'f line_item list \<Rightarrow> pyerr + 'f line_item list" where
  "enrich_loop rt dd [] items = Inr items"
| "enrich_loop rt dd (item # rest) items =
     (case enrich_item rt dd item of
        Inl e \<Rightarrow> Inl e
      | Inr new \<Rightarrow> enrich_loop rt dd rest (items @ new))"

text \<open>
  The raw items of an invoice: \<^verbatim>\<open>invoice_data['items']\<close> in the CSV branch,
  \<^verbatim>\<open>invoice_data.get('items', [])\<close> in the JSON branch.
\<close>

definition raw_items :: "'f pydict \<Rightarrow> suffix \<Rightarrow> pyerr + 'f pyval" where
  "raw_items invoice_data sfx =
     (case sfx of
        Csv \<Rightarrow> (case map_of invoice_data ''items'' of None \<Rightarrow> Inl KeyError | Some v \<Rightarrow> Inr v)
      | Json \<Rightarrow> Inr (dict_get_default invoice_data ''items'' (PList [])))"

definition prepare_invoice_items ::
  "'f builtins \<Rightarrow> 'f data_dir \<Rightarrow> 'f pydict \<Rightarrow> suffix \<Rightarrow> pyerr + 'f line_item list" where
  "prepare_invoice_items rt dd invoice_data sfx =
     (case raw_items invoice_data sfx of
        Inl e \<Rightarrow> Inl e
      | Inr v \<Rightarrow>
          (case py_iter v of
             Inl e \<Rightarrow> Inl e
           | Inr invoice_items \<Rightarrow> enrich_loop rt dd invoice_items []))"

section \<open>A runtime to evaluate the model\<close>

text \<open>
  To run the model on concrete rows, the built-ins are instantiated on floats that are
  whole numbers, written as plain decimal numerals: there Python's float arithmetic is
  exact (below \<open>2 ^ 53\<close>), \<^verbatim>\<open>str(7.0)\<close> is \<^verbatim>\<open>'7.0'\<close> and \<^verbatim>\<open>f"{1234.0:,.2f}"\<close> is
  \<^verbatim>\<open>'1,234.00'\<close>. A string that is not a plain numeral, such as \<^verbatim>\<open>'abc'\<close>, is
  rejected, as \<^verbatim>\<open>int\<close> and \<^verbatim>\<open>float\<close> reject it, and an int that rounds beyond the
  largest float, from \<open>2 ^ 1024 - 2 ^ 970\<close> on, does not convert to a float
  (\<^verbatim>\<open>OverflowError\<close>). This runtime is narrower than the
  interpreter: it reads digits with an optional minus sign only (no blanks, plus sign,
  underscores, fractions or exponents), \<open>whole_repr\<close> is \<^verbatim>\<open>str\<close> on floats only, and it
  has one zero where the interpreter has a negative zero too. The
  rows evaluated below stay inside what it covers; the theorems hold for every runtime.
\<close>

definition digit_val :: "char \<Rightarrow> nat option" where
  "digit_val c = map_of (zip ''0123456789'' [0, 1, 2, 3, 4, 5, 6, 7, 8, 9]) c"

fun numeral_digits :: "string \<Rightarrow> nat \<Rightarrow> nat option" where
  "numeral_digits [] acc = Some acc"
| "numeral_digits (c # cs) acc =
     (case digit_val c of None \<Rightarrow> None | Some d \<Rightarrow> numeral_digits cs (10 * acc + d))"

fun plain_int :: "string \<Rightarrow> int option" where
  "plain_int [] = None"
| "plain_int (c # cs) =
     (if c = CHR ''-'' then (if cs = [] then None else map_option (\<lambda>n. - int n) (numeral_digits cs 0))
      else map_option int (numeral_digits (c # cs) 0))"

fun group_thousands :: "string \<Rightarrow> string" where
  "group_thousands (a # b # c # d # ds) = a # b # c # CHR '','' # group_thousands (d # ds)"
| "group_thousands ds = ds"

definition whole_2f :: "int \<Rightarrow> string" where
  "whole_2f i =
     (if i < 0 then ''-'' else []) @ rev (group_thousands (rev (str_nat (nat \<bar>i\<bar>)))) @ ''.00''"

fun whole_repr :: "int pyval \<Rightarrow> string" where
  "whole_repr (PFloat i) = str_int i @ ''.0''"
| "whole_repr v = []"

definition whole_rt :: "int builtins" where
  "whole_rt =
     \<lparr>float_of_int = (\<lambda>i. if \<bar>i\<bar> < 2 ^ 1024 - 2 ^ 970 then Some i else None),
      float_of_str = plain_int,
      int_of_str = plain_int,
      int_of_float = Inr,
      float_mul = (*),
      float_eq = (=),
      float_sum = sum_list,
      repr_other = whole_repr,
      format_2f = whole_2f\<rparr>"

section \<open>Resolution tries the flat source first\<close>

text \<open>
  C3. \<^verbatim>\<open>load_customer_data\<close> and \<^verbatim>\<open>load_product_data\<close> return the first row, of the
  CSV file followed by the JSON file, whose id field has the string form of the wanted
  id. So a match in the CSV file is returned whatever the JSON file holds: when the id
  is in both files, the answer is the first matching CSV row.
\<close>

theorem resolution_flat_source_first:
  "load_customer_data rt dd cid =
     find (id_matches rt ''customer_id'' cid) (rows_of (customer_csv dd) @ rows_of (customer_json dd))
   \<and> load_product_data rt dd pid =
     find (id_matches rt ''product_id'' pid) (rows_of (product_csv dd) @ rows_of (product_json dd))
   \<and> (\<forall>c. find (id_matches rt ''customer_id'' cid) (rows_of (customer_csv dd)) = Some c
          \<longrightarrow> load_customer_data rt dd cid = Some c)
   \<and> (\<forall>p. find (id_matches rt ''product_id'' pid) (rows_of (product_csv dd)) = Some p
          \<longrightarrow> load_product_data rt dd pid = Some p)"
  by (simp add: load_customer_data_find load_product_data_find find_append_first)

definition both_sources :: "int data_dir" where
  "both_sources =
     \<lparr>customer_csv = Some [[(''customer_id'', PStr ''8''), (''name'', PStr ''other'')],
                          [(''customer_id'', PStr ''7''), (''name'', PStr ''flat'')]],
      customer_json = Some [[(''customer_id'', PInt 7), (''name'', PStr ''nested'')]],
      product_csv = Some [[(''product_id'', PStr ''A''), (''price'', PStr ''10'')]],
      product_json = Some [[(''product_id'', PStr ''A''), (''price'', PInt 99)]]\<rparr>"

lemma str_int_7: "str_int 7 = ''7''"
  by (simp add: str_int_def str_nat.simps digit_char_def)

theorem resolution_flat_source_first_witness:
  "find (id_matches whole_rt ''customer_id'' (PInt 7)) (rows_of (customer_csv both_sources))
     = Some [(''customer_id'', PStr ''7''), (''name'', PStr ''flat'')]
   \<and> find (id_matches whole_rt ''customer_id'' (PInt 7)) (rows_of (customer_json both_sources))
     = Some [(''customer_id'', PInt 7), (''name'', PStr ''nested'')]
   \<and> load_customer_data whole_rt both_sources (PInt 7)
     = Some [(''customer_id'', PStr ''7''), (''name'', PStr ''flat'')]
   \<and> find (id_matches whole_rt ''product_id'' (PStr ''A'')) (rows_of (product_csv both_sources))
     = Some [(''product_id'', PStr ''A''), (''price'', PStr ''10'')]
   \<and> load_product_data whole_rt both_sources (PStr ''A'')
     = Some [(''product_id'', PStr ''A''), (''price'', PStr ''10'')]"
proof -
  have c: "find (id_matches whole_rt ''customer_id'' (PInt 7)) (rows_of (customer_csv both_sources))
             = Some [(''customer_id'', PStr ''7''), (''name'', PStr ''flat'')]"
    by (simp add: both_sources_def rows_of_def id_matches_def dict_get_def str_int_7)
  have j: "find (id_matches whole_rt ''customer_id'' (PInt 7)) (rows_of (customer_json both_sources))
             = Some [(''customer_id'', PInt 7), (''name'', PStr ''nested'')]"
    by (simp add: both_sources_def rows_of_def id_matches_def dict_get_def str_int_7)
  have p: "find (id_matches whole_rt ''product_id'' (PStr ''A'')) (rows_of (product_csv both_sources))
             = Some [(''product_id'', PStr ''A''), (''price'', PStr ''10'')]"
    by (simp add: both_sources_def rows_of_def id_matches_def dict_get_def)
  note t = resolution_flat_source_first [of whole_rt both_sources "PInt 7" "PStr ''A''"]
  from t c have a: "load_customer_data whole_rt both_sources (PInt 7)
                      = Some [(''customer_id'', PStr ''7''), (''name'', PStr ''flat'')]"
    by blast
  from t p have b: "load_product_data whole_rt both_sources (PStr ''A'')
                      = Some [(''product_id'', PStr ''A''), (''price'', PStr ''10'')]"
    by blast
  from a b c j p show ?thesis by blast
qed

section \<open>The header of a flat invoice\<close>

text \<open>
  What the CSV loop leaves in \<^verbatim>\<open>invoice_date\<close> and \<^verbatim>\<open>customer_id\<close>: the guard
  \<^verbatim>\<open>if invoice_date is None\<close> keeps assigning until a matching row gives a value
  that is not \<open>None\<close>.
\<close>

definition first_not_none :: "'f pyval list \<Rightarrow> 'f pyval" where
  "first_not_none vs = (case find (\<lambda>v. v \<noteq> PNone) vs of None \<Rightarrow> PNone | Some v \<Rightarrow> v)"

definition keep_or_first :: "'f pyval \<Rightarrow> 'f pyval list \<Rightarrow> 'f pyval" where
  "keep_or_first v vs = (if v = PNone then first_not_none vs else v)"

lemma csv_rows_loop_eq:
  "csv_rows_loop rt iid rows (its, d, c) =
     (its @ filter (id_matches rt ''invoice_id'' iid) rows,
      keep_or_first d (map (\<lambda>r. dict_get r ''date'') (filter (id_matches rt ''invoice_id'' iid) rows)),
      keep_or_first c (map (\<lambda>r. dict_get r ''customer_id'') (filter (id_matches rt ''invoice_id'' iid) rows)))"
  by (induction rows arbitrary: its d c)
     (auto simp: id_matches_def keep_or_first_def first_not_none_def)

lemma str_int_1: "str_int 1 = ''1''"
  by (simp add: str_int_def str_nat.simps digit_char_def)

text \<open>
  C7, as the code has it. For every flat record sequence, the assembled header takes
  \<^verbatim>\<open>date\<close> from the first matching record whose \<^verbatim>\<open>date\<close> is not \<open>None\<close>, and
  \<^verbatim>\<open>customer_id\<close> from the first matching record whose \<^verbatim>\<open>customer_id\<close> is not
  \<open>None\<close> (\<open>None\<close> when no matching record has one); every matching record becomes one
  raw line item, in input order.
\<close>

theorem flat_header_first_not_none:
  "get_invoice_data rt data iid Csv =
     Inr [(''invoice_id'', iid),
          (''customer_id'',
             first_not_none (map (\<lambda>r. dict_get r ''customer_id'') (filter (id_matches rt ''invoice_id'' iid) data))),
          (''date'',
             first_not_none (map (\<lambda>r. dict_get r ''date'') (filter (id_matches rt ''invoice_id'' iid) data))),
          (''items'', PList (map PDict (filter (id_matches rt ''invoice_id'' iid) data)))]"
  by (simp add: get_invoice_data_def csv_rows_loop_eq keep_or_first_def)

text \<open>
  C7 as stated fails: two rows of invoice 1, the first a short row (the \<^verbatim>\<open>csv\<close> module
  fills its missing columns with \<open>None\<close>), the second with the customer and the date.
  Both rows match, the first matching row has no date and no customer, and the header
  takes both from the second row.
\<close>

definition short_first_row :: "int pydict list" where
  "short_first_row =
     [[(''invoice_id'', PStr ''1''), (''product_id'', PStr ''A''), (''customer_id'', PNone), (''date'', PNone)],
      [(''invoice_id'', PStr ''1''), (''product_id'', PStr ''B''), (''customer_id'', PStr ''9''),
       (''date'', PStr ''2024-01-02'')]]"

theorem flat_header_first_record_counterexample:
  "get_invoice_data whole_rt short_first_row (PInt 1) Csv =
     Inr [(''invoice_id'', PInt 1),
          (''customer_id'', PStr ''9''),
          (''date'', PStr ''2024-01-02''),
          (''items'', PList (map PDict short_first_row))]
   \<and> filter (id_matches whole_rt ''invoice_id'' (PInt 1)) short_first_row = short_first_row
   \<and> dict_get (hd short_first_row) ''date'' = PNone
   \<and> dict_get (hd short_first_row) ''customer_id'' = PNone"
  by (simp add: get_invoice_data_def short_first_row_def dict_get_def str_int_1 id_matches_def)

section \<open>An invoice id that no record has\<close>

text \<open>
  The JSON branch of \<^verbatim>\<open>get_invoice_data\<close> falls through to the \<^verbatim>\<open>raise ValueError\<close>
  at the end of the function; the CSV branch returns before it, whatever it found.
\<close>

lemma nested_not_found_raises:
  "filter (id_matches rt ''invoice_id'' iid) data = [] \<Longrightarrow> get_invoice_data rt data iid Json = Inl ValueError"
  by (auto simp: get_invoice_data_def filter_empty_conv find_Some_iff split: option.splits)

lemma flat_never_raises: "get_invoice_data rt data iid Csv \<noteq> Inl e"
  by (simp add: get_invoice_data_def split: prod.splits)

text \<open>
  C6. One record, of invoice 2; invoice 1 is asked for. Read from a JSON file the
  lookup raises \<^verbatim>\<open>ValueError\<close>; read from a CSV file it returns a header with
  \<open>None\<close> for the customer and the date, and no items.
\<close>

theorem flat_not_found_returns_header:
  "get_invoice_data whole_rt [[(''invoice_id'', PStr ''2''), (''customer_id'', PStr ''9'')]] (PInt 1) Csv =
     Inr [(''invoice_id'', PInt 1), (''customer_id'', PNone), (''date'', PNone), (''items'', PList [])]
   \<and> get_invoice_data whole_rt [[(''invoice_id'', PStr ''2''), (''customer_id'', PStr ''9'')]] (PInt 1) Json =
     Inl ValueError"
  by (simp add: get_invoice_data_def dict_get_def str_int_1 id_matches_def)

section \<open>Enrichment: drops, quantities and prices\<close>

lemma dict_get_default_None: "dict_get_default d k PNone = dict_get d k"
  by (simp add: dict_get_default_def dict_get_def)

lemma enrich_loop_append:
  "enrich_loop rt dd (xs @ ys) acc =
     (case enrich_loop rt dd xs acc of Inl e \<Rightarrow> Inl e | Inr acc' \<Rightarrow> enrich_loop rt dd ys acc')"
  by (induction xs arbitrary: acc) (auto split: sum.splits)

lemma enrich_loop_skip:
  "enrich_item rt dd item = Inr [] \<Longrightarrow>
     enrich_loop rt dd (pre @ item # post) acc = enrich_loop rt dd (pre @ post) acc"
  by (simp add: enrich_loop_append split: sum.splits)

lemma enrich_item_unresolved:
  assumes "load_product_data rt dd (dict_get d ''product_id'') = None"
      and "py_int rt (dict_get_default d ''quantity'' (PInt 1)) = Inr q"
  shows "enrich_item rt dd (PDict d) = Inr []"
  using assms by (simp add: enrich_item_def dict_get_default_None)

lemma enrich_item_quantity_error:
  "py_int rt (dict_get_default d ''quantity'' (PInt 1)) = Inl e \<Longrightarrow> enrich_item rt dd (PDict d) = Inl e"
  by (simp add: enrich_item_def)

lemma raw_items_of_list:
  "map_of invoice_data ''items'' = Some v \<Longrightarrow> raw_items invoice_data sfx = Inr v"
  by (cases sfx) (simp_all add: raw_items_def dict_get_default_def)

text \<open>
  Rows to run the enrichment on: a product file \<^verbatim>\<open>product.csv\<close> with an anvil at 10,
  and a file \<^verbatim>\<open>product.json\<close> with two objects, a flyer that has no \<^verbatim>\<open>price\<close> key
  and an empty object. (Every row of a CSV file has every column, so only a JSON
  record can lack the key.)
\<close>

definition catalogue :: "int data_dir" where
  "catalogue =
     \<lparr>customer_csv = None,
      customer_json = None,
      product_csv = Some [[(''product_id'', PStr ''A''), (''name'', PStr ''Anvil''), (''price'', PStr ''10'')]],
      product_json = Some [[(''product_id'', PStr ''F''), (''name'', PStr ''Flyer'')], []]\<rparr>"

lemmas run_enrich =
  enrich_item_def load_product_data_def id_matches_def dict_get_def dict_get_default_def
  whole_rt_def float_times_int_def float_int_def digit_val_def catalogue_def
  prepare_invoice_items_def raw_items_def

text \<open>
  C4, as the code has it. A raw item whose product id resolves to no record, and whose
  quantity is absent or is accepted by \<^verbatim>\<open>int\<close>, is dropped without an error: the
  enrichment of the invoice is what it is without the item, so nothing of it reaches
  the grand total.
\<close>

theorem unresolved_item_dropped:
  assumes "load_product_data rt dd (dict_get d ''product_id'') = None"
      and "py_int rt (dict_get_default d ''quantity'' (PInt 1)) = Inr q"
      and "map_of invoice_data ''items'' = Some (PList (pre @ PDict d # post))"
      and "map_of without ''items'' = Some (PList (pre @ post))"
  shows "enrich_item rt dd (PDict d) = Inr []
       \<and> prepare_invoice_items rt dd invoice_data sfx = prepare_invoice_items rt dd without sfx"
proof -
  have e: "enrich_item rt dd (PDict d) = Inr []"
    using assms(1,2) by (rule enrich_item_unresolved)
  have r: "raw_items invoice_data sfx = Inr (PList (pre @ PDict d # post))"
    using assms(3) by (rule raw_items_of_list)
  have r': "raw_items without sfx = Inr (PList (pre @ post))"
    using assms(4) by (rule raw_items_of_list)
  show ?thesis
    using e by (simp add: prepare_invoice_items_def r r' enrich_loop_skip)
qed

theorem unresolved_item_dropped_witness:
  "load_product_data whole_rt catalogue (dict_get [(''product_id'', PStr ''X''), (''quantity'', PStr ''3'')] ''product_id'')
     = None
   \<and> py_int whole_rt (dict_get_default [(''product_id'', PStr ''X''), (''quantity'', PStr ''3'')] ''quantity'' (PInt 1))
     = Inr 3
   \<and> prepare_invoice_items whole_rt catalogue
        [(''invoice_id'', PInt 1),
         (''items'', PList ([PDict [(''product_id'', PStr ''A''), (''quantity'', PStr ''2'')]]
                            @ PDict [(''product_id'', PStr ''X''), (''quantity'', PStr ''3'')] # []))] Json
     = prepare_invoice_items whole_rt catalogue
        [(''invoice_id'', PInt 1),
         (''items'', PList ([PDict [(''product_id'', PStr ''A''), (''quantity'', PStr ''2'')]] @ []))] Json
   \<and> prepare_invoice_items whole_rt catalogue
        [(''invoice_id'', PInt 1),
         (''items'', PList ([PDict [(''product_id'', PStr ''A''), (''quantity'', PStr ''2'')]] @ []))] Json
     = Inr [\<lparr>item_product_id = PStr ''A'', item_name = PStr ''Anvil'', item_quantity = 2,
             item_price = 10, item_total = 20\<rparr>]"
proof -
  have h1: "load_product_data whole_rt catalogue
              (dict_get [(''product_id'', PStr ''X''), (''quantity'', PStr ''3'')] ''product_id'') = None"
    by (simp add: run_enrich)
  have h2: "py_int whole_rt
              (dict_get_default [(''product_id'', PStr ''X''), (''quantity'', PStr ''3'')] ''quantity'' (PInt 1)) = Inr 3"
    by (simp add: run_enrich)
  have h3: "map_of [(''invoice_id'', PInt 1),
                    (''items'', PList ([PDict [(''product_id'', PStr ''A''), (''quantity'', PStr ''2'')]]
                                       @ PDict [(''product_id'', PStr ''X''), (''quantity'', PStr ''3'')] # []))]
              ''items''
            = Some (PList ([PDict [(''product_id'', PStr ''A''), (''quantity'', PStr ''2'')]]
                           @ PDict [(''product_id'', PStr ''X''), (''quantity'', PStr ''3'')] # []))"
    by simp
  have h4: "map_of [(''invoice_id'', PInt 1),
                    (''items'', PList ([PDict [(''product_id'', PStr ''A''), (''quantity'', PStr ''2'')]] @ []))]
              ''items''
            = Some (PList ([PDict [(''product_id'', PStr ''A''), (''quantity'', PStr ''2'')]] @ []))"
    by simp
  have v: "prepare_invoice_items whole_rt catalogue
             [(''invoice_id'', PInt 1),
              (''items'', PList ([PDict [(''product_id'', PStr ''A''), (''quantity'', PStr ''2'')]] @ []))] Json
           = Inr [\<lparr>item_product_id = PStr ''A'', item_name = PStr ''Anvil'', item_quantity = 2,
                   item_price = 10, item_total = 20\<rparr>]"
    by (simp add: run_enrich)
  from unresolved_item_dropped [OF h1 h2 h3 h4, of Json] h1 h2 v show ?thesis
    by blast
qed

text \<open>
  C4 as stated fails: the quantity is converted before the product is looked up, so an
  item of an unknown product whose quantity is \<^verbatim>\<open>'abc'\<close> is not dropped in silence; it
  raises \<^verbatim>\<open>ValueError\<close>.
\<close>

theorem unresolved_item_raises_counterexample:
  "load_product_data whole_rt catalogue (PStr ''X'') = None
   \<and> prepare_invoice_items whole_rt catalogue
        [(''invoice_id'', PInt 1),
         (''items'', PList [PDict [(''product_id'', PStr ''X''), (''quantity'', PStr ''abc'')]])] Json
     = Inl ValueError"
  by (simp add: run_enrich)

text \<open>
  C5, as the code has it. The quantity of an item is \<^verbatim>\<open>int\<close> of its \<^verbatim>\<open>quantity\<close>
  field, and 1 only when the item has no such field: an item without the field is
  enriched as the same item with quantity 1. A field that \<^verbatim>\<open>int\<close> rejects (a string
  that is no integer: \<^verbatim>\<open>ValueError\<close>) makes the enrichment raise that error, at the
  item and for the whole list.
\<close>

theorem quantity_default_only_when_absent:
  "(map_of d ''quantity'' = None \<longrightarrow>
      enrich_item rt dd (PDict d) = enrich_item rt dd (PDict ((''quantity'', PInt 1) # d)))
   \<and> (\<forall>v e. map_of d ''quantity'' = Some v \<and> py_int rt v = Inl e \<longrightarrow>
          enrich_item rt dd (PDict d) = Inl e \<and> enrich_loop rt dd (PDict d # rest) acc = Inl e)
   \<and> (\<forall>s. map_of d ''quantity'' = Some (PStr s) \<and> int_of_str rt s = None \<longrightarrow>
          enrich_item rt dd (PDict d) = Inl ValueError)
   \<and> (\<forall>it. enrich_item rt dd (PDict d) = Inr [it] \<longrightarrow>
          py_int rt (dict_get_default d ''quantity'' (PInt 1)) = Inr (item_quantity it))"
proof (intro conjI allI impI)
  assume "map_of d ''quantity'' = None"
  then show "enrich_item rt dd (PDict d) = enrich_item rt dd (PDict ((''quantity'', PInt 1) # d))"
    by (simp add: enrich_item_def dict_get_default_def)
next
  fix v e
  assume a: "map_of d ''quantity'' = Some v \<and> py_int rt v = Inl e"
  then have "py_int rt (dict_get_default d ''quantity'' (PInt 1)) = Inl e"
    by (simp add: dict_get_default_def)
  then show "enrich_item rt dd (PDict d) = Inl e"
    by (rule enrich_item_quantity_error)
  then show "enrich_loop rt dd (PDict d # rest) acc = Inl e"
    by simp
next
  fix s
  assume "map_of d ''quantity'' = Some (PStr s) \<and> int_of_str rt s = None"
  then have "py_int rt (dict_get_default d ''quantity'' (PInt 1)) = Inl ValueError"
    by (simp add: dict_get_default_def)
  then show "enrich_item rt dd (PDict d) = Inl ValueError"
    by (rule enrich_item_quantity_error)
next
  fix it
  assume "enrich_item rt dd (PDict d) = Inr [it]"
  then show "py_int rt (dict_get_default d ''quantity'' (PInt 1)) = Inr (item_quantity it)"
    by (auto simp: enrich_item_def split: sum.splits option.splits if_splits)
qed

theorem quantity_default_only_when_absent_witness:
  "map_of [(''product_id'', PStr ''A'')] ''quantity'' = (None :: int pyval option)
   \<and> enrich_item whole_rt catalogue (PDict [(''product_id'', PStr ''A'')])
     = enrich_item whole_rt catalogue (PDict [(''quantity'', PInt 1), (''product_id'', PStr ''A'')])
   \<and> enrich_item whole_rt catalogue (PDict [(''product_id'', PStr ''A'')])
     = Inr [\<lparr>item_product_id = PStr ''A'', item_name = PStr ''Anvil'', item_quantity = 1,
             item_price = 10, item_total = 10\<rparr>]
   \<and> py_int whole_rt (dict_get_default [(''product_id'', PStr ''A'')] ''quantity'' (PInt 1)) = Inr 1
   \<and> map_of [(''product_id'', PStr ''A''), (''quantity'', PStr ''abc'')] ''quantity'' = Some (PStr ''abc'' :: int pyval)
   \<and> int_of_str whole_rt ''abc'' = None
   \<and> py_int whole_rt (PStr ''abc'') = Inl ValueError
   \<and> enrich_item whole_rt catalogue (PDict [(''product_id'', PStr ''A''), (''quantity'', PStr ''abc'')])
     = Inl ValueError
   \<and> enrich_loop whole_rt catalogue [PDict [(''product_id'', PStr ''A''), (''quantity'', PStr ''abc'')]] []
     = Inl ValueError"
proof -
  let ?absent = "[(''product_id'', PStr ''A'')] :: int pydict"
  let ?bad = "[(''product_id'', PStr ''A''), (''quantity'', PStr ''abc'')] :: int pydict"
  let ?anvil = "\<lparr>item_product_id = PStr ''A'', item_name = PStr ''Anvil'', item_quantity = 1,
                  item_price = 10, item_total = 10\<rparr> :: int line_item"
  have h1: "map_of ?absent ''quantity'' = None"
    by simp
  have h2: "map_of ?bad ''quantity'' = Some (PStr ''abc'')"
    by simp
  have h3: "int_of_str whole_rt ''abc'' = None"
    by (simp add: whole_rt_def digit_val_def)
  have h4: "py_int whole_rt (PStr ''abc'') = Inl ValueError"
    by (simp add: h3)
  have v: "enrich_item whole_rt catalogue (PDict ?absent) = Inr [?anvil]"
    by (simp add: run_enrich)
  note a = quantity_default_only_when_absent [of ?absent whole_rt catalogue "[]" "[]"]
  note b = quantity_default_only_when_absent [of ?bad whole_rt catalogue "[]" "[]"]
  from a h1 have c1: "enrich_item whole_rt catalogue (PDict ?absent)
                        = enrich_item whole_rt catalogue (PDict ((''quantity'', PInt 1) # ?absent))"
    by blast
  from a v have c2: "py_int whole_rt (dict_get_default ?absent ''quantity'' (PInt 1)) = Inr (item_quantity ?anvil)"
    by blast
  from b h2 h4 have c3: "enrich_item whole_rt catalogue (PDict ?bad) = Inl ValueError
                         \<and> enrich_loop whole_rt catalogue (PDict ?bad # []) [] = Inl ValueError"
    by blast
  from c1 c2 c3 h1 h2 h3 h4 v show ?thesis
    by simp
qed

text \<open>
  C5 as stated fails: an item of the anvil whose quantity is \<^verbatim>\<open>'abc'\<close> is not enriched
  with quantity 1; \<^verbatim>\<open>int('abc')\<close> raises \<^verbatim>\<open>ValueError\<close> and no list is returned, in
  the CSV branch and in the JSON branch.
\<close>

theorem malformed_quantity_counterexample:
  "prepare_invoice_items whole_rt catalogue
     [(''invoice_id'', PInt 1),
      (''items'', PList [PDict [(''product_id'', PStr ''A''), (''quantity'', PStr ''abc'')]])] Csv
     = Inl ValueError
   \<and> prepare_invoice_items whole_rt catalogue
     [(''invoice_id'', PInt 1),
      (''items'', PList [PDict [(''product_id'', PStr ''A''), (''quantity'', PStr ''abc'')]])] Json
     = Inl ValueError"
  by (simp add: run_enrich)

text \<open>
  Two facts of float arithmetic that the line total of a product without a price rests
  on: \<^verbatim>\<open>float(0)\<close> is a float, and that float times a float converted from an int is
  a zero, which \<^verbatim>\<open>==\<close> holds equal to it (IEEE 754: zero times a finite number is
  zero).
\<close>

definition zero_times_finite :: "'f builtins \<Rightarrow> bool" where
  "zero_times_finite rt =
     ((\<exists>zero. float_of_int rt 0 = Some zero)
      \<and> (\<forall>zero i y. float_of_int rt 0 = Some zero \<and> float_of_int rt i = Some y
             \<longrightarrow> float_eq rt (float_mul rt zero y) zero))"

text \<open>
  C10, as the code has it. A raw item whose quantity is absent or accepted by \<^verbatim>\<open>int\<close>
  and converts to a float, and whose product resolves to a record that is not empty
  and has no \<^verbatim>\<open>price\<close>, is emitted, with unit price \<^verbatim>\<open>float(0)\<close>, that is 0.0, and a
  line total equal to 0.0. An item is dropped only when the lookup returns no record or
  an empty one.
\<close>

theorem priceless_product_emitted:
  "(\<forall>product q qf.
       zero_times_finite rt
       \<and> load_product_data rt dd (dict_get d ''product_id'') = Some product
       \<and> product \<noteq> []
       \<and> map_of product ''price'' = None
       \<and> py_int rt (dict_get_default d ''quantity'' (PInt 1)) = Inr q
       \<and> float_of_int rt q = Some qf
       \<longrightarrow> (\<exists>zero item.
              float_of_int rt 0 = Some zero
              \<and> enrich_item rt dd (PDict d) = Inr [item]
              \<and> item_product_id item = dict_get d ''product_id''
              \<and> item_name item = dict_get_default product ''name'' (PStr unknown_product)
              \<and> item_quantity item = q
              \<and> item_price item = zero
              \<and> float_eq rt (item_total item) zero))
   \<and> (enrich_item rt dd (PDict d) = Inr [] \<longrightarrow>
         load_product_data rt dd (dict_get d ''product_id'') = None
         \<or> load_product_data rt dd (dict_get d ''product_id'') = Some [])"
proof (intro conjI allI impI)
  fix product q qf
  assume a: "zero_times_finite rt
             \<and> load_product_data rt dd (dict_get d ''product_id'') = Some product
             \<and> product \<noteq> []
             \<and> map_of product ''price'' = None
             \<and> py_int rt (dict_get_default d ''quantity'' (PInt 1)) = Inr q
             \<and> float_of_int rt q = Some qf"
  then obtain zero where zero: "float_of_int rt 0 = Some zero"
    by (auto simp: zero_times_finite_def)
  from a zero have law: "float_eq rt (float_mul rt zero qf) zero"
    unfolding zero_times_finite_def by blast
  let ?item = "\<lparr>item_product_id = dict_get d ''product_id'',
                 item_name = dict_get_default product ''name'' (PStr unknown_product),
                 item_quantity = q,
                 item_price = zero,
                 item_total = float_mul rt zero qf\<rparr>"
  from a zero have "enrich_item rt dd (PDict d) = Inr [?item]"
    by (simp add: enrich_item_def dict_get_default_None float_times_int_def float_int_def
                  dict_get_default_def [of product "''price''"])
  with zero law show "\<exists>zero item.
              float_of_int rt 0 = Some zero
              \<and> enrich_item rt dd (PDict d) = Inr [item]
              \<and> item_product_id item = dict_get d ''product_id''
              \<and> item_name item = dict_get_default product ''name'' (PStr unknown_product)
              \<and> item_quantity item = q
              \<and> item_price item = zero
              \<and> float_eq rt (item_total item) zero"
    by (intro exI [of _ zero] exI [of _ ?item]) simp
next
  assume "enrich_item rt dd (PDict d) = Inr []"
  then show "load_product_data rt dd (dict_get d ''product_id'') = None
             \<or> load_product_data rt dd (dict_get d ''product_id'') = Some []"
    by (auto simp: enrich_item_def dict_get_default_None split: sum.splits option.splits if_splits)
qed

lemma whole_float_small: "\<bar>i\<bar> < 1000 \<Longrightarrow> float_of_int whole_rt i = Some i"
  by (simp add: whole_rt_def)

theorem priceless_product_emitted_witness:
  "zero_times_finite whole_rt
   \<and> load_product_data whole_rt catalogue (dict_get [(''product_id'', PStr ''F''), (''quantity'', PInt 3)] ''product_id'')
     = Some [(''product_id'', PStr ''F''), (''name'', PStr ''Flyer'')]
   \<and> map_of [(''product_id'', PStr ''F''), (''name'', PStr ''Flyer'' :: int pyval)] ''price'' = None
   \<and> py_int whole_rt (dict_get_default [(''product_id'', PStr ''F''), (''quantity'', PInt 3)] ''quantity'' (PInt 1))
     = Inr 3
   \<and> float_of_int whole_rt 0 = Some 0
   \<and> float_of_int whole_rt 3 = Some 3
   \<and> enrich_item whole_rt catalogue (PDict [(''product_id'', PStr ''F''), (''quantity'', PInt 3)])
     = Inr [\<lparr>item_product_id = PStr ''F'', item_name = PStr ''Flyer'', item_quantity = 3,
             item_price = 0, item_total = 0\<rparr>]
   \<and> float_eq whole_rt 0 0
   \<and> enrich_item whole_rt catalogue (PDict [(''product_id'', PStr ''X'')]) = Inr []
   \<and> load_product_data whole_rt catalogue (dict_get [(''product_id'', PStr ''X'')] ''product_id'') = None"
proof -
  let ?item = "[(''product_id'', PStr ''F''), (''quantity'', PInt 3)] :: int pydict"
  let ?flyer = "[(''product_id'', PStr ''F''), (''name'', PStr ''Flyer'')] :: int pydict"
  let ?gone = "[(''product_id'', PStr ''X'')] :: int pydict"
  have h0: "zero_times_finite whole_rt"
    by (simp add: zero_times_finite_def whole_rt_def)
  have h1: "load_product_data whole_rt catalogue (dict_get ?item ''product_id'') = Some ?flyer"
    by (simp add: run_enrich)
  have h2: "?flyer \<noteq> []"
    by simp
  have h3: "map_of ?flyer ''price'' = None"
    by simp
  have h4: "py_int whole_rt (dict_get_default ?item ''quantity'' (PInt 1)) = Inr 3"
    by (simp add: run_enrich)
  have h5: "float_of_int whole_rt 0 = Some 0" and h6: "float_of_int whole_rt 3 = Some 3"
    by (simp_all add: whole_float_small)
  have h7: "enrich_item whole_rt catalogue (PDict ?gone) = Inr []"
    by (simp add: run_enrich)
  have h8: "load_product_data whole_rt catalogue (dict_get ?gone ''product_id'') \<noteq> Some []"
    by (simp add: run_enrich)
  note a = priceless_product_emitted [of whole_rt catalogue ?item]
  note b = priceless_product_emitted [of whole_rt catalogue ?gone]
  from a h0 h1 h2 h3 h4 h6
  obtain zero item where
    c: "float_of_int whole_rt 0 = Some zero"
       "enrich_item whole_rt catalogue (PDict ?item) = Inr [item]"
       "item_product_id item = dict_get ?item ''product_id''"
       "item_name item = dict_get_default ?flyer ''name'' (PStr unknown_product)"
       "item_quantity item = 3"
       "item_price item = zero"
       "float_eq whole_rt (item_total item) zero"
    by blast
  from c(1) h5 have z: "zero = 0"
    by simp
  from c(7) z have t: "item_total item = 0"
    by (simp add: whole_rt_def)
  have "item = \<lparr>item_product_id = PStr ''F'', item_name = PStr ''Flyer'', item_quantity = 3,
                  item_price = 0, item_total = 0\<rparr>"
    using c(3,4,5,6) z t by (cases item) (simp add: dict_get_def dict_get_default_def)
  with c(2) have c1: "enrich_item whole_rt catalogue (PDict ?item)
                        = Inr [\<lparr>item_product_id = PStr ''F'', item_name = PStr ''Flyer'', item_quantity = 3,
                                item_price = 0, item_total = 0\<rparr>]"
    by simp
  have e: "float_eq whole_rt 0 0"
    by (simp add: whole_rt_def)
  from b h7 h8 have c2: "load_product_data whole_rt catalogue (dict_get ?gone ''product_id'') = None"
    by blast
  from c1 c2 e h0 h1 h3 h4 h5 h6 h7 show ?thesis
    by blast
qed

text \<open>
  C10 as stated fails three times. The flyer, a JSON record, has no price. An item of
  it whose quantity is \<^verbatim>\<open>'abc'\<close> is not emitted: \<^verbatim>\<open>int\<close> raises \<^verbatim>\<open>ValueError\<close> first.
  An item of it whose quantity is the JSON integer \<open>2 ^ 1024\<close> is not emitted:
  \<^verbatim>\<open>price * quantity\<close> converts the quantity to a float and raises \<^verbatim>\<open>OverflowError\<close>.
  And an item without a product id resolves to the empty object of \<^verbatim>\<open>product.json\<close>
  (both ids have the string form \<^verbatim>\<open>'None'\<close>), a record without a price, and is
  dropped, because \<^verbatim>\<open>if product:\<close> is false for an empty dictionary.
\<close>

theorem priceless_product_counterexample:
  "load_product_data whole_rt catalogue (PStr ''F'') = Some [(''product_id'', PStr ''F''), (''name'', PStr ''Flyer'')]
   \<and> enrich_item whole_rt catalogue (PDict [(''product_id'', PStr ''F''), (''quantity'', PStr ''abc'')])
     = Inl ValueError
   \<and> enrich_item whole_rt catalogue (PDict [(''product_id'', PStr ''F''), (''quantity'', PInt (2 ^ 1024))])
     = Inl OverflowError
   \<and> load_product_data whole_rt catalogue PNone = Some []
   \<and> enrich_item whole_rt catalogue (PDict [(''quantity'', PInt 2)]) = Inr []"
  by (simp add: run_enrich)

section \<open>Composing the document\<close>

text \<open>
  \<^verbatim>\<open>s.replace(old, new)\<close> for a pattern \<open>old\<close> that is not empty, as every pattern of
  \<^verbatim>\<open>generate_html\<close> is: the occurrences are found from the left, never overlapping
  (\<open>prefix old s\<close> is \<^verbatim>\<open>s.startswith(old)\<close>), and the text put in is not searched
  again.
\<close>

function replace :: "string \<Rightarrow> string \<Rightarrow> string \<Rightarrow> string" where
  "replace old new [] = []"
| "replace old new (c # cs) =
     (if old \<noteq> [] \<and> prefix old (c # cs)
      then new @ replace old new (drop (length old) (c # cs))
      else c # replace old new cs)"
  by pat_completeness auto
termination
  by (relation "measure (\<lambda>(old, new, s). length s)") auto

declare replace.simps(2) [simp del]

text \<open>An argument of \<^verbatim>\<open>str.replace\<close> must be a string.\<close>

fun str_arg :: "'f pyval \<Rightarrow> pyerr + string" where
  "str_arg (PStr s) = Inr s"
| "str_arg v = Inl TypeError"

text \<open>
  \<^verbatim>\<open>sum(item['total'] for item in items)\<close>: the int 0 for no items, and the float
  sum of the totals otherwise.
\<close>

definition total_amount :: "'f builtins \<Rightarrow> 'f line_item list \<Rightarrow> 'f pyval" where
  "total_amount rt items =
     (case items of
        [] \<Rightarrow> PInt 0
      | item # rest \<Rightarrow> PFloat (float_sum rt (map item_total items)))"

text \<open>\<^verbatim>\<open>f"{total_amount:,.2f}"\<close>: an int is converted to a float and formatted as one.\<close>

fun format_amount :: "'f builtins \<Rightarrow> 'f pyval \<Rightarrow> pyerr + string" where
  "format_amount rt (PFloat x) = Inr (format_2f rt x)"
| "format_amount rt (PInt i) = (case float_int rt i of Inl e \<Rightarrow> Inl e | Inr x \<Rightarrow> Inr (format_2f rt x))"
| "format_amount rt (PBool b) =
     (case float_int rt (if b then 1 else 0) of Inl e \<Rightarrow> Inl e | Inr x \<Rightarrow> Inr (format_2f rt x))"
| "format_amount rt (PStr s) = Inl ValueError"
| "format_amount rt v = Inl TypeError"

text \<open>
  The words of the markup that are not ASCII, as their UTF-8 bytes: \<open>txt_invoice\<close> is
  the Russian for invoice (Schyot), \<open>txt_number\<close> the numero sign, \<open>txt_date\<close> Data,
  \<open>txt_buyer\<close> Pokupatel, \<open>txt_phone\<close> Telefon, \<open>txt_address\<close> Adres, \<open>txt_rouble\<close> the
  rouble sign, \<open>txt_item_name\<close> Naimenovanie tovara, \<open>txt_qty\<close> Kol-vo,
  \<open>txt_unit_price\<close> Tsena za sht. and \<open>txt_sum\<close> Summa.
\<close>

definition txt_invoice :: string where
  "txt_invoice =
     [CHR 0xD0, CHR 0xA1, CHR 0xD1, CHR 0x87, CHR 0xD1, CHR 0x91, CHR 0xD1, CHR 0x82]"

definition txt_number :: string where
  "txt_number =
     [CHR 0xE2, CHR 0x84, CHR 0x96]"

definition txt_date :: string where
  "txt_date =
     [CHR 0xD0, CHR 0x94, CHR 0xD0, CHR 0xB0, CHR 0xD1, CHR 0x82, CHR 0xD0, CHR 0xB0]"

definition txt_buyer :: string where
  "txt_buyer =
     [CHR 0xD0, CHR 0x9F, CHR 0xD0, CHR 0xBE, CHR 0xD0, CHR 0xBA, CHR 0xD1, CHR 0x83, CHR 0xD0, CHR 0xBF,
      CHR 0xD0, CHR 0xB0, CHR 0xD1, CHR 0x82, CHR 0xD0, CHR 0xB5, CHR 0xD0, CHR 0xBB, CHR 0xD1, CHR 0x8C]"

definition txt_phone :: string where
  "txt_phone =
     [CHR 0xD0, CHR 0xA2, CHR 0xD0, CHR 0xB5, CHR 0xD0, CHR 0xBB, CHR 0xD0, CHR 0xB5, CHR 0xD1, CHR 0x84,
      CHR 0xD0, CHR 0xBE, CHR 0xD0, CHR 0xBD]"

definition txt_address :: string where
  "txt_address =
     [CHR 0xD0, CHR 0x90, CHR 0xD0, CHR 0xB4, CHR 0xD1, CHR 0x80, CHR 0xD0, CHR 0xB5, CHR 0xD1, CHR 0x81]"

definition txt_rouble :: string where
  "txt_rouble =
     [CHR 0xE2, CHR 0x82, CHR 0xBD]"

definition txt_item_name :: string where
  "txt_item_name =
     [CHR 0xD0, CHR 0x9D, CHR 0xD0, CHR 0xB0, CHR 0xD0, CHR 0xB8, CHR 0xD0, CHR 0xBC, CHR 0xD0, CHR 0xB5,
      CHR 0xD0, CHR 0xBD, CHR 0xD0, CHR 0xBE, CHR 0xD0, CHR 0xB2, CHR 0xD0, CHR 0xB0, CHR 0xD0, CHR 0xBD,
      CHR 0xD0, CHR 0xB8, CHR 0xD0, CHR 0xB5, CHR '' '', CHR 0xD1, CHR 0x82, CHR 0xD0, CHR 0xBE, CHR 0xD0,
      CHR 0xB2, CHR 0xD0, CHR 0xB0, CHR 0xD1, CHR 0x80, CHR 0xD0, CHR 0xB0]"

definition txt_qty :: string where
  "txt_qty =
     [CHR 0xD0, CHR 0x9A, CHR 0xD0, CHR 0xBE, CHR 0xD0, CHR 0xBB, CHR ''-'', CHR 0xD0, CHR 0xB2, CHR 0xD0,
      CHR 0xBE]"

definition txt_unit_price :: string where
  "txt_unit_price =
     [CHR 0xD0, CHR 0xA6, CHR 0xD0, CHR 0xB5, CHR 0xD0, CHR 0xBD, CHR 0xD0, CHR 0xB0, CHR '' '', CHR 0xD0,
      CHR 0xB7, CHR 0xD0, CHR 0xB0, CHR '' '', CHR 0xD1, CHR 0x88, CHR 0xD1, CHR 0x82, CHR ''.'']"

definition txt_sum :: string where
  "txt_sum =
     [CHR 0xD0, CHR 0xA1, CHR 0xD1, CHR 0x83, CHR 0xD0, CHR 0xBC, CHR 0xD0, CHR 0xBC, CHR 0xD0, CHR 0xB0]"

definition header_repeat :: "'f builtins \<Rightarrow> 'f pydict \<Rightarrow> 'f pydict \<Rightarrow> string" where
  \<open>header_repeat rt invoice_data customer_data =
     ''\<newline>''
     @ ''    <div class="page-break"></div>\<newline>''
     @ ''    <div class="header-repeat">\<newline>''
     @ ''        <h2>''
     @ txt_invoice
     @ '' ''
     @ txt_number
     @ py_str rt (dict_get_default invoice_data ''invoice_id'' (PStr []))
     @ ''</h2>\<newline>''
     @ ''        <div class="header-repeat-info">\<newline>''
     @ ''            <div class="header-repeat-info-row">\<newline>''
     @ ''                <div class="header-repeat-info-cell header-repeat-info-label">''
     @ txt_date
     @ '':</div>\<newline>''
     @ ''                <div class="header-repeat-info-cell">''
     @ py_str rt (dict_get_default invoice_data ''date'' (PStr []))
     @ ''</div>\<newline>''
     @ ''            </div>\<newline>''
     @ ''        </div>\<newline>''
     @ ''        <div class="header-repeat-customer">\<newline>''
     @ ''            <h3>''
     @ txt_buyer
     @ '':</h3>\<newline>''
     @ ''            <div class="header-repeat-customer-details">\<newline>''
     @ ''                <p><strong>''
     @ py_str rt (dict_get_default customer_data ''name'' (PStr []))
     @ ''</strong></p>\<newline>''
     @ ''                <p>Email: ''
     @ py_str rt (dict_get_default customer_data ''email'' (PStr []))
     @ ''</p>\<newline>''
     @ ''                <p>''
     @ txt_phone
     @ '': ''
     @ py_str rt (dict_get_default customer_data ''phone'' (PStr []))
     @ ''</p>\<newline>''
     @ ''                <p>''
     @ txt_address
     @ '': ''
     @ py_str rt (dict_get_default customer_data ''address'' (PStr []))
     @ ''</p>\<newline>''
     @ ''            </div>\<newline>''
     @ ''        </div>\<newline>''
     @ ''    </div>\<newline>''\<close>

definition item_row :: "'f builtins \<Rightarrow> nat \<Rightarrow> 'f line_item \<Rightarrow> string" where
  \<open>item_row rt global_idx item =
     ''\<newline>''
     @ ''            <tr>\<newline>''
     @ ''                <td class="text-center">''
     @ str_nat global_idx
     @ ''</td>\<newline>''
     @ ''                <td>''
     @ py_str rt (item_name item)
     @ ''</td>\<newline>''
     @ ''                <td class="text-center">''
     @ str_int (item_quantity item)
     @ ''</td>\<newline>''
     @ ''                <td class="text-right">''
     @ format_2f rt (item_price item)
     @ '' ''
     @ txt_rouble
     @ ''</td>\<newline>''
     @ ''                <td class="text-right">''
     @ format_2f rt (item_total item)
     @ '' ''
     @ txt_rouble
     @ ''</td>\<newline>''
     @ ''            </tr>\<newline>''\<close>

definition table_container :: "string \<Rightarrow> string" where
  \<open>table_container items_rows =
     ''\<newline>''
     @ ''    <div class="table-container">\<newline>''
     @ ''        <table>\<newline>''
     @ ''            <thead>\<newline>''
     @ ''                <tr>\<newline>''
     @ ''                    <th style="width: 5%;">''
     @ txt_number
     @ ''</th>\<newline>''
     @ ''                    <th style="width: 45%;">''
     @ txt_item_name
     @ ''</th>\<newline>''
     @ ''                    <th style="width: 10%;" class="text-center">''
     @ txt_qty
     @ ''</th>\<newline>''
     @ ''                    <th style="width: 15%;" class="text-right">''
     @ txt_unit_price
     @ ''</th>\<newline>''
     @ ''                    <th style="width: 15%;" class="text-right">''
     @ txt_sum
     @ ''</th>\<newline>''
     @ ''                </tr>\<newline>''
     @ ''            </thead>\<newline>''
     @ ''            <tbody>\<newline>''
     @ ''                ''
     @ items_rows
     @ ''\<newline>''
     @ ''            </tbody>\<newline>''
     @ ''        </table>\<newline>''
     @ ''    </div>\<newline>''\<close>

text \<open>
  The three f-strings of \<^verbatim>\<open>generate_html\<close> are \<open>header_repeat\<close> (the page break and
  the repeated header), \<open>item_row\<close> (one table row) and \<open>table_container\<close> (the table
  of a page around its rows).
\<close>

definition items_per_page :: nat where
  "items_per_page = 10"

text \<open>
  The inner loop, \<^verbatim>\<open>for idx, item in enumerate(page_items, 1)\<close>, appends one row for
  each item of the page to \<^verbatim>\<open>items_rows\<close>.
\<close>

fun rows_loop :: "'f builtins \<Rightarrow> nat \<Rightarrow> (nat \<times> 'f line_item) list \<Rightarrow> string \<Rightarrow> string" where
  "rows_loop rt page_num [] items_rows = items_rows"
| "rows_loop rt page_num ((idx, item) # rest) items_rows =
     rows_loop rt page_num rest (items_rows @ item_row rt (page_num + idx) item)"

text \<open>
  The outer loop, \<^verbatim>\<open>for page_num in range(0, len(items), items_per_page)\<close>, appends to
  \<^verbatim>\<open>tables_html\<close> the repeated header, unless the page is the first, and the table of
  the slice \<^verbatim>\<open>items[page_num:page_num + items_per_page]\<close>.
\<close>

function tables_loop ::
  "'f builtins \<Rightarrow> 'f pydict \<Rightarrow> 'f pydict \<Rightarrow> 'f line_item list \<Rightarrow> nat \<Rightarrow> string \<Rightarrow> string" where
  "tables_loop rt invoice_data customer_data items page_num tables_html =
     (if page_num < length items
      then tables_loop rt invoice_data customer_data items (page_num + items_per_page)
             (tables_html
              @ (if page_num \<noteq> 0 then header_repeat rt invoice_data customer_data else [])
              @ table_container
                  (rows_loop rt page_num (enumerate 1 (take items_per_page (drop page_num items))) []))
      else tables_html)"
  by pat_completeness auto
termination
  by (relation "measure (\<lambda>(rt, invoice_data, customer_data, items, page_num, tables_html). length items - page_num)")
     (auto simp: items_per_page_def)

declare tables_loop.simps [simp del]

definition generate_html ::
  "'f builtins \<Rightarrow> string \<Rightarrow> 'f pydict \<Rightarrow> 'f pydict \<Rightarrow> 'f line_item list \<Rightarrow> pyerr + string" where
  "generate_html rt html_template invoice_data customer_data items =
     (let html = replace ''{{invoice_id}}''
                   (py_str rt (dict_get_default invoice_data ''invoice_id'' (PStr []))) html_template;
          html = replace ''{{invoice_date}}''
                   (py_str rt (dict_get_default invoice_data ''date'' (PStr []))) html
      in
     (case str_arg (dict_get_default customer_data ''name'' (PStr [])) of
        Inl e \<Rightarrow> Inl e
      | Inr name \<Rightarrow>
     (case str_arg (dict_get_default customer_data ''email'' (PStr [])) of
        Inl e \<Rightarrow> Inl e
      | Inr email \<Rightarrow>
     (case str_arg (dict_get_default customer_data ''phone'' (PStr [])) of
        Inl e \<Rightarrow> Inl e
      | Inr phone \<Rightarrow>
     (case str_arg (dict_get_default customer_data ''address'' (PStr [])) of
        Inl e \<Rightarrow> Inl e
      | Inr address \<Rightarrow>
     (case format_amount rt (total_amount rt items) of
        Inl e \<Rightarrow> Inl e
      | Inr amount_text \<Rightarrow>
          Inr (replace ''{{total_amount}}'' amount_text
                (replace ''{{tables}}'' (tables_loop rt invoice_data customer_data items 0 [])
                  (replace ''{{customer_address}}'' address
                    (replace ''{{customer_phone}}'' phone
                      (replace ''{{customer_email}}'' email
                        (replace ''{{customer_name}}'' name html))))))))))))"

section \<open>Pagination\<close>

text \<open>
  The pager as the specification words it. A page holds its rows, each the global
  1-based index of an item with the item, and says whether the header block is repeated
  before its table. Page \<open>k\<close> (from 0) holds the items at the positions from
  \<open>k * capacity\<close> up to, and not including, \<open>min ((k + 1) * capacity) (length items)\<close>, and
  repeats the header unless \<open>k = 0\<close>. The \<^verbatim>\<open>tables\<close> text is the pages in order, each
  the repeated header block, when the page repeats it, and then its table.
\<close>

record 'a page =
  page_rows :: "(nat \<times> 'a) list"
  repeats_header :: bool

definition paginate :: "nat \<Rightarrow> 'a list \<Rightarrow> 'a page list" where
  "paginate capacity items =
     map (\<lambda>k. \<lparr>page_rows = map (\<lambda>i. (i + 1, items ! i))
                               [k * capacity ..< min ((k + 1) * capacity) (length items)],
                repeats_header = (0 < k)\<rparr>)
         [0 ..< (length items + capacity - 1) div capacity]"

definition render_page :: "'f builtins \<Rightarrow> 'f pydict \<Rightarrow> 'f pydict \<Rightarrow> 'f line_item page \<Rightarrow> string" where
  "render_page rt invoice_data customer_data p =
     (if repeats_header p then header_repeat rt invoice_data customer_data else [])
     @ table_container (concat (map (\<lambda>(global_idx, item). item_row rt global_idx item) (page_rows p)))"

lemma rows_loop_concat:
  "rows_loop rt page_num xs acc =
     acc @ concat (map (\<lambda>(global_idx, item). item_row rt global_idx item)
                       (map (\<lambda>(idx, item). (page_num + idx, item)) xs))"
  by (induction xs arbitrary: acc) auto

lemma slice_rows:
  "map (\<lambda>(idx, item). (k * c + idx, item)) (enumerate 1 (take c (drop (k * c) items)))
     = map (\<lambda>i. (i + 1, items ! i)) [k * c ..< min ((k + 1) * c) (length items)]"
  by (auto simp: list_eq_iff_nth_eq nth_enumerate_eq)

text \<open>What one round of the outer loop appends for the page that starts at \<open>page_num\<close>.\<close>

definition page_block :: "'f builtins \<Rightarrow> 'f pydict \<Rightarrow> 'f pydict \<Rightarrow> 'f line_item list \<Rightarrow> nat \<Rightarrow> string" where
  "page_block rt invoice_data customer_data items page_num =
     (if page_num \<noteq> 0 then header_repeat rt invoice_data customer_data else [])
     @ table_container
         (rows_loop rt page_num (enumerate 1 (take items_per_page (drop page_num items))) [])"

lemma page_block_render:
  "page_block rt invoice customer items (k * items_per_page) =
     render_page rt invoice customer
       \<lparr>page_rows = map (\<lambda>i. (i + 1, items ! i))
                        [k * items_per_page ..< min ((k + 1) * items_per_page) (length items)],
        repeats_header = (0 < k)\<rparr>"
proof -
  have rows: "rows_loop rt (k * items_per_page)
                (enumerate 1 (take items_per_page (drop (k * items_per_page) items))) [] =
              concat (map (\<lambda>(global_idx, item). item_row rt global_idx item)
                          (map (\<lambda>i. (i + 1, items ! i))
                               [k * items_per_page ..< min ((k + 1) * items_per_page) (length items)]))"
    unfolding rows_loop_concat slice_rows by simp
  have first: "(k * items_per_page \<noteq> 0) = (0 < k)"
    by (simp add: items_per_page_def)
  show ?thesis
    unfolding page_block_def render_page_def rows first by simp
qed

lemma tables_loop_pages:
  "k \<le> (length items + 9) div 10 \<Longrightarrow>
     tables_loop rt invoice customer items (k * items_per_page) acc =
       acc @ concat (map (\<lambda>j. page_block rt invoice customer items (j * items_per_page))
                         [k ..< (length items + 9) div 10])"
proof (induction "(length items + 9) div 10 - k" arbitrary: k acc)
  case 0
  then have "k = (length items + 9) div 10"
    by simp
  then have "\<not> k * items_per_page < length items"
    unfolding items_per_page_def by arith
  then show ?case
    using \<open>k = (length items + 9) div 10\<close> by (simp add: tables_loop.simps)
next
  case (Suc n)
  then have lt: "k < (length items + 9) div 10"
    by simp
  then have in_range: "k * items_per_page < length items"
    unfolding items_per_page_def by arith
  have step: "tables_loop rt invoice customer items (k * items_per_page) acc =
                tables_loop rt invoice customer items (Suc k * items_per_page)
                  (acc @ page_block rt invoice customer items (k * items_per_page))"
    using in_range
    by (subst tables_loop.simps) (simp add: page_block_def add.commute)
  have "n = (length items + 9) div 10 - Suc k"
    using Suc.hyps(2) by simp
  moreover have "Suc k \<le> (length items + 9) div 10"
    using lt by simp
  ultimately have "tables_loop rt invoice customer items (Suc k * items_per_page)
                     (acc @ page_block rt invoice customer items (k * items_per_page)) =
                   (acc @ page_block rt invoice customer items (k * items_per_page))
                   @ concat (map (\<lambda>j. page_block rt invoice customer items (j * items_per_page))
                                 [Suc k ..< (length items + 9) div 10])"
    by (rule Suc.hyps(1))
  then show ?case
    using lt by (simp add: step upt_conv_Cons)
qed

lemma tables_loop_paginate:
  "tables_loop rt invoice customer items 0 [] =
     concat (map (render_page rt invoice customer) (paginate items_per_page items))"
proof -
  have n: "(length items + items_per_page - 1) div items_per_page = (length items + 9) div 10"
    by (simp add: items_per_page_def)
  have "tables_loop rt invoice customer items (0 * items_per_page) [] =
          [] @ concat (map (\<lambda>j. page_block rt invoice customer items (j * items_per_page))
                           [0 ..< (length items + 9) div 10])"
    by (rule tables_loop_pages) simp
  then show ?thesis
    unfolding paginate_def n map_map comp_def page_block_render by simp
qed















section \<open>Placeholders\<close>




lemma replace_Cons_no_prefix:
  "\<not> prefix old (c # cs) \<Longrightarrow> replace old new (c # cs) = c # replace old new cs"
  by (simp add: replace.simps)


lemma replace_no_occurrence:
  "(\<And>a b. s \<noteq> a @ old @ b) \<Longrightarrow> replace old new s = s"
proof (induction s)
  case Nil
  show ?case by simp
next
  case (Cons c cs)
  have "\<not> prefix old (c # cs)"
  proof
    assume "prefix old (c # cs)"
    then obtain b where "c # cs = [] @ old @ b"
      by (auto simp: prefix_def)
    with Cons.prems show False by blast
  qed
  moreover have "cs \<noteq> a @ old @ b" for a b
  proof
    assume "cs = a @ old @ b"
    then have "c # cs = (c # a) @ old @ b" by simp
    with Cons.prems show False by blast
  qed
  ultimately show ?case
    using Cons.IH by (simp add: replace_Cons_no_prefix)
qed








lemma replace_known_absent:
  "\<not> sublist old s \<Longrightarrow> replace old new s = s"
  by (rule replace_no_occurrence) (auto simp: sublist_def)






lemmas run_compose =
  generate_html_def Let_def replace.simps dict_get_default_def total_amount_def float_int_def
  whole_rt_def tables_loop.simps



section \<open>Composition is a function of what it renders\<close>

lemma header_repeat_cong:
  assumes "map_of invoice ''invoice_id'' = map_of invoice' ''invoice_id''"
      and "map_of invoice ''date'' = map_of invoice' ''date''"
      and "map_of customer ''name'' = map_of customer' ''name''"
      and "map_of customer ''email'' = map_of customer' ''email''"
      and "map_of customer ''phone'' = map_of customer' ''phone''"
      and "map_of customer ''address'' = map_of customer' ''address''"
  shows "header_repeat rt invoice customer = header_repeat rt invoice' customer'"
  using assms by (simp add: header_repeat_def dict_get_default_def)

lemma tables_cong:
  assumes "header_repeat rt invoice customer = header_repeat rt invoice' customer'"
  shows "tables_loop rt invoice customer items 0 [] = tables_loop rt invoice' customer' items 0 []"
proof -
  have "render_page rt invoice customer = render_page rt invoice' customer'"
    using assms by (simp add: render_page_def fun_eq_iff)
  then show ?thesis
    by (simp add: tables_loop_paginate)
qed

text \<open>
  C9. \<^verbatim>\<open>generate_html\<close> reads no state but its arguments, and of the two dictionaries
  only the fields it renders: two calls on the same template and items whose invoices
  agree on \<^verbatim>\<open>invoice_id\<close> and \<^verbatim>\<open>date\<close> and whose customers agree on \<^verbatim>\<open>name\<close>,
  \<^verbatim>\<open>email\<close>, \<^verbatim>\<open>phone\<close> and \<^verbatim>\<open>address\<close> return the same result, the same markup byte
  for byte or the same error. Two calls on the same arguments are the case where the
  dictionaries are equal.
\<close>

theorem compose_deterministic:
  assumes "map_of invoice ''invoice_id'' = map_of invoice' ''invoice_id''"
      and "map_of invoice ''date'' = map_of invoice' ''date''"
      and "map_of customer ''name'' = map_of customer' ''name''"
      and "map_of customer ''email'' = map_of customer' ''email''"
      and "map_of customer ''phone'' = map_of customer' ''phone''"
      and "map_of customer ''address'' = map_of customer' ''address''"
  shows "generate_html rt template invoice customer items = generate_html rt template invoice' customer' items"
proof -
  have "header_repeat rt invoice customer = header_repeat rt invoice' customer'"
    using assms by (rule header_repeat_cong)
  then have tables: "tables_loop rt invoice customer items 0 [] = tables_loop rt invoice' customer' items 0 []"
    by (rule tables_cong)
  have invoice_id: "dict_get_default invoice ''invoice_id'' (PStr []) = dict_get_default invoice' ''invoice_id'' (PStr [])"
    using assms(1) by (simp add: dict_get_default_def)
  have date: "dict_get_default invoice ''date'' (PStr []) = dict_get_default invoice' ''date'' (PStr [])"
    using assms(2) by (simp add: dict_get_default_def)
  have name: "dict_get_default customer ''name'' (PStr []) = dict_get_default customer' ''name'' (PStr [])"
    using assms(3) by (simp add: dict_get_default_def)
  have email: "dict_get_default customer ''email'' (PStr []) = dict_get_default customer' ''email'' (PStr [])"
    using assms(4) by (simp add: dict_get_default_def)
  have phone: "dict_get_default customer ''phone'' (PStr []) = dict_get_default customer' ''phone'' (PStr [])"
    using assms(5) by (simp add: dict_get_default_def)
  have address: "dict_get_default customer ''address'' (PStr []) = dict_get_default customer' ''address'' (PStr [])"
    using assms(6) by (simp add: dict_get_default_def)
  show ?thesis
    unfolding generate_html_def tables invoice_id date name email phone address by (rule refl)
qed

theorem compose_deterministic_witness:
  "generate_html whole_rt ''<h1>{{invoice_id}}</h1>{{customer_name}}: {{total_amount}}''
     [(''invoice_id'', PInt 7), (''date'', PStr ''2024-01-01'')] [(''name'', PStr ''Ann'')] []
   = generate_html whole_rt ''<h1>{{invoice_id}}</h1>{{customer_name}}: {{total_amount}}''
     [(''date'', PStr ''2024-01-01''), (''customer_id'', PInt 9), (''invoice_id'', PInt 7)]
     [(''vat'', PStr ''x''), (''name'', PStr ''Ann'')] []
   \<and> generate_html whole_rt ''<h1>{{invoice_id}}</h1>{{customer_name}}: {{total_amount}}''
     [(''invoice_id'', PInt 7), (''date'', PStr ''2024-01-01'')] [(''name'', PStr ''Ann'')] []
   = Inr ''<h1>7</h1>Ann: 0.00''"
proof -
  let ?t = "''<h1>{{invoice_id}}</h1>{{customer_name}}: {{total_amount}}''"
  let ?i = "[(''invoice_id'', PInt 7), (''date'', PStr ''2024-01-01'')] :: int pydict"
  let ?i' = "[(''date'', PStr ''2024-01-01''), (''customer_id'', PInt 9), (''invoice_id'', PInt 7)] :: int pydict"
  let ?c = "[(''name'', PStr ''Ann'')] :: int pydict"
  let ?c' = "[(''vat'', PStr ''x''), (''name'', PStr ''Ann'')] :: int pydict"
  have same: "generate_html whole_rt ?t ?i ?c [] = generate_html whole_rt ?t ?i' ?c' []"
    by (rule compose_deterministic) simp_all
  have out: "generate_html whole_rt ?t ?i ?c [] = Inr ''<h1>7</h1>Ann: 0.00''"
    by (simp add: run_compose str_int_7 whole_2f_def str_nat.simps digit_char_def)
  from same out show ?thesis
    by blast
qed

section \<open>The grand total\<close>

text \<open>
  \<open>product_found\<close> is the test \<^verbatim>\<open>if product:\<close> on the result of the lookup of an id,
  \<open>raw_product_id\<close> the id of a raw item (\<^verbatim>\<open>item.get('product_id')\<close>). An enriched
  item is \<open>line_priced\<close> when its total is its unit price times its quantity, and
  \<open>price_resolved\<close> when its unit price is \<^verbatim>\<open>float\<close> of the price of the product that
  its id resolves to (of 0 when the product has no price).
\<close>

definition product_found :: "'f builtins \<Rightarrow> 'f data_dir \<Rightarrow> 'f pyval \<Rightarrow> bool" where
  "product_found rt dd product_id =
     (case load_product_data rt dd product_id of None \<Rightarrow> False | Some product \<Rightarrow> product \<noteq> [])"

fun raw_product_id :: "'f pyval \<Rightarrow> 'f pyval" where
  "raw_product_id (PDict d) = dict_get d ''product_id''"
| "raw_product_id v = PNone"

definition line_priced :: "'f builtins \<Rightarrow> 'f line_item \<Rightarrow> bool" where
  "line_priced rt item = (float_times_int rt (item_price item) (item_quantity item) = Inr (item_total item))"

definition price_resolved :: "'f builtins \<Rightarrow> 'f data_dir \<Rightarrow> 'f line_item \<Rightarrow> bool" where
  "price_resolved rt dd item =
     (case load_product_data rt dd (item_product_id item) of
        None \<Rightarrow> False
      | Some product \<Rightarrow>
          py_float rt (dict_get_default product ''price'' (PInt 0)) = Inr (item_price item))"

lemma enrich_item_emits:
  assumes "enrich_item rt dd raw = Inr new"
  shows "map item_product_id new = filter (product_found rt dd) [raw_product_id raw]
         \<and> list_all (line_priced rt) new
         \<and> list_all (price_resolved rt dd) new"
proof (cases raw)
  case (PDict d)
  with assms show ?thesis
    by (auto simp: enrich_item_def product_found_def line_priced_def price_resolved_def
                   dict_get_default_None
             split: sum.splits option.splits if_splits)
qed (use assms in \<open>simp_all add: enrich_item_def\<close>)

lemma enrich_loop_emits:
  "enrich_loop rt dd raws acc = Inr out \<Longrightarrow>
     \<exists>new. out = acc @ new
           \<and> map item_product_id new = filter (product_found rt dd) (map raw_product_id raws)
           \<and> list_all (line_priced rt) new
           \<and> list_all (price_resolved rt dd) new"
proof (induction raws arbitrary: acc)
  case Nil
  then show ?case by simp
next
  case (Cons raw raws)
  from Cons.prems obtain new1 where one: "enrich_item rt dd raw = Inr new1"
    and rest: "enrich_loop rt dd raws (acc @ new1) = Inr out"
    by (auto split: sum.splits)
  from Cons.IH [OF rest] obtain new2 where
    out: "out = (acc @ new1) @ new2"
    and ids: "map item_product_id new2 = filter (product_found rt dd) (map raw_product_id raws)"
    and priced: "list_all (line_priced rt) new2"
    and resolved: "list_all (price_resolved rt dd) new2"
    by blast
  from enrich_item_emits [OF one] have
    ids1: "map item_product_id new1 = filter (product_found rt dd) [raw_product_id raw]"
    and priced1: "list_all (line_priced rt) new1"
    and resolved1: "list_all (price_resolved rt dd) new1"
    by simp_all
  have "out = acc @ (new1 @ new2)"
    using out by simp
  moreover have "map item_product_id (new1 @ new2) =
                   filter (product_found rt dd) (map raw_product_id (raw # raws))"
    using ids ids1 by simp
  moreover have "list_all (line_priced rt) (new1 @ new2)"
    using priced priced1 by simp
  moreover have "list_all (price_resolved rt dd) (new1 @ new2)"
    using resolved resolved1 by simp
  ultimately show ?case
    by blast
qed

lemma generate_html_total_only:
  "generate_html rt ''{{total_amount}}'' invoice customer items =
     (case generate_html rt [] invoice customer items of
        Inl e \<Rightarrow> Inl e
      | Inr a \<Rightarrow> format_amount rt (total_amount rt items))"
proof -
  have others:
    "replace ''{{invoice_id}}'' new ''{{total_amount}}'' = ''{{total_amount}}''"
    "replace ''{{invoice_date}}'' new ''{{total_amount}}'' = ''{{total_amount}}''"
    "replace ''{{customer_name}}'' new ''{{total_amount}}'' = ''{{total_amount}}''"
    "replace ''{{customer_email}}'' new ''{{total_amount}}'' = ''{{total_amount}}''"
    "replace ''{{customer_phone}}'' new ''{{total_amount}}'' = ''{{total_amount}}''"
    "replace ''{{customer_address}}'' new ''{{total_amount}}'' = ''{{total_amount}}''"
    "replace ''{{tables}}'' new ''{{total_amount}}'' = ''{{total_amount}}''" for new
    by (rule replace_known_absent, simp add: sublist_Cons_right)+
  have this_one: "replace ''{{total_amount}}'' new ''{{total_amount}}'' = new" for new
    by (simp add: replace.simps)
  show ?thesis
    unfolding generate_html_def Let_def
    by (simp add: others this_one split: sum.splits)
qed

text \<open>
  C1. When the enrichment of an invoice returns, the items it emits are the raw items
  whose product was found, in order (the others are dropped and contribute nothing),
  the unit price of each is the price of its product, the line total of each is its
  unit price times its quantity, the grand total is the
  sum of the line totals of the emitted items (the int 0 when there is none), and what
  \<^verbatim>\<open>generate_html\<close> puts in the place of \<^verbatim>\<open>{{total_amount}}\<close> is this grand total with
  two decimals.
\<close>

theorem grand_total_of_emitted_items:
  assumes "raw_items invoice_data sfx = Inr v"
      and "py_iter v = Inr raws"
      and "prepare_invoice_items rt dd invoice_data sfx = Inr items"
  shows "map item_product_id items = filter (product_found rt dd) (map raw_product_id raws)
       \<and> list_all (price_resolved rt dd) items
       \<and> list_all (line_priced rt) items
       \<and> total_amount rt items =
           (if items = [] then PInt 0 else PFloat (float_sum rt (map item_total items)))
       \<and> generate_html rt ''{{total_amount}}'' invoice_data customer_data items =
           (case generate_html rt [] invoice_data customer_data items of
              Inl e \<Rightarrow> Inl e
            | Inr a \<Rightarrow> format_amount rt (total_amount rt items))"
proof -
  from assms have "enrich_loop rt dd raws [] = Inr items"
    by (simp add: prepare_invoice_items_def)
  from enrich_loop_emits [OF this] have
    "map item_product_id items = filter (product_found rt dd) (map raw_product_id raws)"
    and "list_all (line_priced rt) items"
    and "list_all (price_resolved rt dd) items"
    by simp_all
  moreover have "total_amount rt items =
                   (if items = [] then PInt 0 else PFloat (float_sum rt (map item_total items)))"
    by (cases items) (simp_all add: total_amount_def)
  ultimately show ?thesis
    using generate_html_total_only [of rt invoice_data customer_data items] by simp
qed

text \<open>
  The scenario of the specification, with a third row of an unknown product: two
  anvils at 10 and one bolt at 5 are emitted, the third row is dropped, and the total
  is 25.00.
\<close>

definition price_list :: "int data_dir" where
  "price_list =
     \<lparr>customer_csv = None,
      customer_json = None,
      product_csv = Some [[(''product_id'', PStr ''A''), (''name'', PStr ''Anvil''), (''price'', PStr ''10'')],
                         [(''product_id'', PStr ''B''), (''name'', PStr ''Bolt''), (''price'', PStr ''5'')]],
      product_json = None\<rparr>"

definition scenario_rows :: "int pydict list" where
  "scenario_rows =
     [[(''invoice_id'', PInt 1), (''customer_id'', PInt 9), (''date'', PStr ''2024-01-01''),
       (''product_id'', PStr ''A''), (''quantity'', PInt 2)],
      [(''invoice_id'', PInt 1), (''product_id'', PStr ''B''), (''quantity'', PInt 1)],
      [(''invoice_id'', PInt 1), (''product_id'', PStr ''X''), (''quantity'', PInt 4)]]"

definition scenario_invoice :: "int pydict" where
  "scenario_invoice =
     [(''invoice_id'', PInt 1), (''customer_id'', PInt 9), (''date'', PStr ''2024-01-01''),
      (''items'', PList (map PDict scenario_rows))]"

definition scenario_items :: "int line_item list" where
  "scenario_items =
     [\<lparr>item_product_id = PStr ''A'', item_name = PStr ''Anvil'', item_quantity = 2,
        item_price = 10, item_total = 20\<rparr>,
      \<lparr>item_product_id = PStr ''B'', item_name = PStr ''Bolt'', item_quantity = 1,
        item_price = 5, item_total = 5\<rparr>]"

theorem grand_total_of_emitted_items_witness:
  "get_invoice_data whole_rt scenario_rows (PInt 1) Csv = Inr scenario_invoice
   \<and> raw_items scenario_invoice Csv = Inr (PList (map PDict scenario_rows))
   \<and> py_iter (PList (map PDict scenario_rows)) = Inr (map PDict scenario_rows)
   \<and> prepare_invoice_items whole_rt price_list scenario_invoice Csv = Inr scenario_items
   \<and> map item_product_id scenario_items
       = filter (product_found whole_rt price_list) (map raw_product_id (map PDict scenario_rows))
   \<and> map item_product_id scenario_items = [PStr ''A'', PStr ''B'']
   \<and> list_all (price_resolved whole_rt price_list) scenario_items
   \<and> list_all (line_priced whole_rt) scenario_items
   \<and> total_amount whole_rt scenario_items = PFloat 25
   \<and> generate_html whole_rt ''{{total_amount}}'' scenario_invoice [] scenario_items = Inr ''25.00''"
proof -
  have g: "get_invoice_data whole_rt scenario_rows (PInt 1) Csv = Inr scenario_invoice"
    by (simp add: get_invoice_data_def scenario_rows_def scenario_invoice_def dict_get_def)
  have h1: "raw_items scenario_invoice Csv = Inr (PList (map PDict scenario_rows))"
    by (simp add: raw_items_def scenario_invoice_def)
  have h2: "py_iter (PList (map PDict scenario_rows)) = Inr (map PDict scenario_rows)"
    by simp
  have h3: "prepare_invoice_items whole_rt price_list scenario_invoice Csv = Inr scenario_items"
    by (simp add: prepare_invoice_items_def raw_items_def scenario_invoice_def scenario_rows_def
                  scenario_items_def enrich_item_def load_product_data_def id_matches_def dict_get_def
                  dict_get_default_def whole_rt_def float_times_int_def float_int_def digit_val_def
                  price_list_def)
  note t = grand_total_of_emitted_items [OF h1 h2 h3, of "[]"]
  have ids: "map item_product_id scenario_items = [PStr ''A'', PStr ''B'']"
    by (simp add: scenario_items_def)
  have total: "total_amount whole_rt scenario_items = PFloat 25"
    by (simp add: total_amount_def scenario_items_def whole_rt_def)
  have fmt: "format_2f whole_rt 25 = ''25.00''"
    by (simp add: whole_rt_def whole_2f_def str_nat.simps digit_char_def)
  have empty: "generate_html whole_rt [] scenario_invoice [] scenario_items = Inr []"
    by (simp add: generate_html_def Let_def dict_get_default_def total fmt)
  from t have "generate_html whole_rt ''{{total_amount}}'' scenario_invoice [] scenario_items =
                 (case generate_html whole_rt [] scenario_invoice [] scenario_items of
                    Inl e \<Rightarrow> Inl e
                  | Inr a \<Rightarrow> format_amount whole_rt (total_amount whole_rt scenario_items))"
    by blast
  then have html: "generate_html whole_rt ''{{total_amount}}'' scenario_invoice [] scenario_items = Inr ''25.00''"
    by (simp add: empty total fmt)
  from t g h1 h2 h3 ids total html show ?thesis
    by simp
qed

end
